theory Spec2Isabelle
  imports Complex_Main
begin

section \<open>JavaScript values used by the app\<close>

text \<open>
  A JavaScript string is a sequence of UTF-16 code units; \<open>lit\<close> writes an ASCII literal.
  The Serbian literals of \<^verbatim>\<open>src/unnamed/part_001\<close> carry their non-ASCII letters as
  explicit code units (353 = s with caron, 269 = c with caron, 268 = its capital,
  273 = d with stroke).
\<close>

type_synonym jsstring = "nat list"

definition lit :: "string \<Rightarrow> jsstring" where
  "lit s = map of_char s"

text \<open>\<^verbatim>\<open>String.prototype.startsWith\<close> (one argument).\<close>

fun startsWith :: "jsstring \<Rightarrow> jsstring \<Rightarrow> bool" where
  "startsWith s [] = True"
| "startsWith [] (p # ps) = False"
| "startsWith (c # s) (p # ps) = (c = p \<and> startsWith s ps)"

text \<open>
  \<^verbatim>\<open>String.prototype.trim\<close> strips WhiteSpace and LineTerminator code units from both
  ends: TAB, LF, VT, FF, CR, SP, NBSP, U+1680, U+2000..U+200A, LS, PS, U+202F, U+205F,
  U+3000 and the byte-order mark.
\<close>

definition isWhiteSpace :: "nat \<Rightarrow> bool" where
  "isWhiteSpace c =
     (c \<in> {9, 10, 11, 12, 13, 32, 160, 5760, 8232, 8233, 8239, 8287, 12288, 65279}
      \<or> (8192 \<le> c \<and> c \<le> 8202))"

definition trim :: "jsstring \<Rightarrow> jsstring" where
  "trim s = rev (dropWhile isWhiteSpace (rev (dropWhile isWhiteSpace s)))"

text \<open>
  A value that is a string, \<^verbatim>\<open>null\<close> or \<^verbatim>\<open>undefined\<close> is a \<open>jsstring option\<close>.
  It is truthy when it is a non-empty string; \<open>orElse x d\<close> is \<^verbatim>\<open>x || d\<close>.
\<close>

definition truthy :: "jsstring option \<Rightarrow> bool" where
  "truthy x = (case x of None \<Rightarrow> False | Some s \<Rightarrow> s \<noteq> [])"

definition orElse :: "jsstring option \<Rightarrow> jsstring \<Rightarrow> jsstring" where
  "orElse x d = (if truthy x then (case x of Some s \<Rightarrow> s | None \<Rightarrow> d) else d)"

text \<open>
  A template literal renders the integer \<^verbatim>\<open>Date.now()\<close> in decimal
  (48 is the code unit of the digit 0).
\<close>

function decimal :: "nat \<Rightarrow> jsstring" where
  "decimal n = (if n < 10 then [48 + n] else decimal (n div 10) @ [48 + n mod 10])"
  by pat_completeness auto
termination
  by (relation "measure id") auto

declare decimal.simps [simp del]

section \<open>Collaborators: what the app calls, and what they answer\<close>

datatype platform = Android | IOS

text \<open>
  \<^verbatim>\<open>Platform\<close> and the \<^verbatim>\<open>RNFS\<close> directory constants. \<open>DownloadDirectoryPath\<close> is
  undefined on iOS.
\<close>

record device =
  OS :: platform
  Version :: nat
  DocumentDirectoryPath :: jsstring
  DownloadDirectoryPath :: "jsstring option"

datatype permission =
  CAMERA | READ_EXTERNAL_STORAGE | ACCESS_FINE_LOCATION | WRITE_EXTERNAL_STORAGE

text \<open>
  What \<^verbatim>\<open>PermissionsAndroid.request\<close> settles with: one of its three result
  constants, or a rejection.
\<close>

datatype permission_result = GRANTED | DENIED | NEVER_ASK_AGAIN | RequestThrew

record coords =
  latitude :: real
  longitude :: real

record asset =
  asset_uri :: "jsstring option"

record picker_response =
  didCancel :: bool
  errorCode :: "jsstring option"
  errorMessage :: "jsstring option"
  assets :: "asset list option"

record js_error =
  message :: "jsstring option"

text \<open>
  \<^verbatim>\<open>Geolocation.getCurrentPosition\<close> calls its success callback with a position, calls
  its error callback with an error code (1 permission denied, 2 position unavailable,
  3 timeout), or throws before it returns.
\<close>

datatype position_result = PositionSuccess coords | PositionError nat | PositionThrew

record recognition =
  result_text :: "jsstring option"

datatype recognize_result =
  RecognizeResolved "recognition option" | RecognizeRejected js_error

datatype promise_result = Fulfilled | RejectedWith js_error

text \<open>
  The calls the app makes on its collaborators. A permission request is recorded by
  its permission (the rationale texts are not), a position query by its three options,
  \<^verbatim>\<open>RNFS.writeFile\<close> by path, contents and encoding.
\<close>

datatype effect =
    RequestPermission permission
  | Alert jsstring jsstring
  | LaunchCamera
  | LaunchImageLibrary
  | GetCurrentPosition bool nat nat
  | Recognize "jsstring option"
  | CameraRollSave "jsstring option"
  | Share jsstring
  | ClipboardSetString jsstring
  | SetTimeout nat
  | WriteFile jsstring jsstring jsstring

section \<open>Component state\<close>

datatype image_source = Camera | Gallery

text \<open>
  A history entry of \<^verbatim>\<open>part_001\<close>. The timestamp is kept as the clock reading whose
  ISO rendering the code stores.
\<close>

record history_entry =
  entry_imageUri :: "jsstring option"
  entry_extractedText :: jsstring
  entry_location :: "coords option"
  entry_timestamp :: nat

text \<open>The \<^verbatim>\<open>useState\<close> cells of \<^verbatim>\<open>App\<close>; \<open>history\<close> exists in \<^verbatim>\<open>part_001\<close> only.\<close>

record app_state =
  imageUri :: "jsstring option"
  imageSource :: "image_source option"
  extractedText :: jsstring
  location :: "coords option"
  loading :: bool
  saveStatus :: "jsstring option"
  copyStatus :: "jsstring option"
  history :: "history_entry list"

definition initial :: app_state where
  "initial = \<lparr>imageUri = None, imageSource = None, extractedText = [], location = None,
     loading = False, saveStatus = None, copyStatus = None, history = []\<rparr>"

section \<open>The two source files\<close>

text \<open>
  \<^verbatim>\<open>src/App.js\<close> and \<^verbatim>\<open>src/unnamed/part_001\<close> are two versions of the same component.
  They differ in their user-visible literals (collected in \<open>ui_text\<close>), in the scan
  history that \<^verbatim>\<open>part_001\<close> appends, and in \<^verbatim>\<open>handleSaveTextToFile\<close>.
\<close>

datatype source_file = App_js | Part_001

record ui_text =
  permissionDenied :: jsstring
  cameraRequired :: jsstring
  cameraError :: jsstring
  unknownError :: jsstring
  storageRequired :: jsstring
  galleryError :: jsstring
  noTextDetected :: jsstring
  ocrFailed :: jsstring
  success :: jsstring
  photoSaved :: jsstring
  errorTitle :: jsstring
  savePhotoFailed :: jsstring
  shareFailed :: jsstring
  copied :: jsstring

fun ui :: "source_file \<Rightarrow> ui_text" where
  "ui App_js = \<lparr>
     permissionDenied = lit ''Permission Denied'',
     cameraRequired = lit ''Camera permission is required.'',
     cameraError = lit ''Camera Error'',
     unknownError = lit ''Unknown error'',
     storageRequired = lit ''Storage permission is required.'',
     galleryError = lit ''Gallery Error'',
     noTextDetected = lit ''No text detected.'',
     ocrFailed = lit ''OCR failed: '',
     success = lit ''Success'',
     photoSaved = lit ''Photo saved to gallery.'',
     errorTitle = lit ''Error'',
     savePhotoFailed = lit ''Failed to save photo: '',
     shareFailed = lit ''Failed to share text: '',
     copied = lit ''Copied!''\<rparr>"
| "ui Part_001 = \<lparr>
     permissionDenied = lit ''Dozvola odbijena'',
     cameraRequired = lit ''Potrebna je dozvola za kameru.'',
     cameraError = lit ''Gre'' @ [353] @ lit ''ka kamere'',
     unknownError = lit ''Nepoznata gre'' @ [353] @ lit ''ka'',
     storageRequired = lit ''Potrebna je dozvola za skladi'' @ [353] @ lit ''tenje.'',
     galleryError = lit ''Gre'' @ [353] @ lit ''ka galerije'',
     noTextDetected = lit ''Nije prona'' @ [273] @ lit ''en tekst.'',
     ocrFailed = lit ''OCR nije uspeo: '',
     success = lit ''Uspeh'',
     photoSaved = lit ''Fotografija je sa'' @ [269] @ lit ''uvana u galeriji.'',
     errorTitle = lit ''Gre'' @ [353] @ lit ''ka'',
     savePhotoFailed =
       lit ''Neuspe'' @ [353] @ lit ''no '' @ [269] @ lit ''uvanje fotografije: '',
     shareFailed = lit ''Neuspe'' @ [353] @ lit ''no deljenje teksta: '',
     copied = lit ''Kopirano!''\<rparr>"

section \<open>Asynchronous handlers as resumable segments\<close>

text \<open>
  JavaScript runs each handler to its next \<^verbatim>\<open>await\<close> (or pending callback) without
  interruption. Every such segment is one function below: it takes the live state,
  returns the state after its \<^verbatim>\<open>set...\<close> calls, the collaborator calls it made, and
  the continuation it left pending, if any. A continuation keeps what its closure
  reads later: the state as rendered when the handler was created (\<open>rendered\<close>), the
  image \<open>uri\<close>, the local \<open>loc\<close>.
\<close>

datatype task =
    TakePhoto_permission app_state
  | TakePhoto_camera app_state
  | SelectFromGallery_permission app_state
  | SelectFromGallery_library app_state
  | Process_permission "jsstring option" app_state
  | Process_position "jsstring option" app_state
  | Process_recognize "jsstring option" "coords option" app_state
  | SavePhoto_permission app_state
  | SavePhoto_save
  | ShareText_share
  | CopyText_timeout
  | SaveText_permission app_state
  | SaveText_write jsstring

type_synonym step = "app_state \<times> effect list \<times> task option"

text \<open>
  \<^verbatim>\<open>requestAndroidPermission\<close>: true only for \<^verbatim>\<open>RESULTS.GRANTED\<close>; its
  \<^verbatim>\<open>catch\<close> turns a rejection into false.
\<close>

definition requestAndroidPermission :: "permission_result \<Rightarrow> bool" where
  "requestAndroidPermission granted =
     (case granted of RequestThrew \<Rightarrow> False | _ \<Rightarrow> granted = GRANTED)"

subsection \<open>processImageAndLocation\<close>

definition processImageAndLocation ::
  "device \<Rightarrow> jsstring option \<Rightarrow> app_state \<Rightarrow> app_state \<Rightarrow> step" where
  "processImageAndLocation dev uri rendered s =
     (let s1 = s\<lparr>loading := True, extractedText := [], location := None\<rparr>
      in if OS dev = Android
         then (s1, [RequestPermission ACCESS_FINE_LOCATION],
               Some (Process_permission uri rendered))
         else (s1, [GetCurrentPosition True 10000 10000],
               Some (Process_position uri rendered)))"

text \<open>After the location permission: a denial throws into the \<^verbatim>\<open>catch\<close>, and OCR starts.\<close>

definition processImageAndLocation_permission ::
  "jsstring option \<Rightarrow> app_state \<Rightarrow> permission_result \<Rightarrow> app_state \<Rightarrow> step" where
  "processImageAndLocation_permission uri rendered locGranted s =
     (if \<not> requestAndroidPermission locGranted
      then (s\<lparr>location := None\<rparr>, [Recognize uri],
            Some (Process_recognize uri None rendered))
      else (s, [GetCurrentPosition True 10000 10000],
            Some (Process_position uri rendered)))"

text \<open>
  The position query settles: both callbacks call \<^verbatim>\<open>resolve\<close>; a throw rejects the
  promise and lands in the \<^verbatim>\<open>catch\<close>. Then step 2 calls the recognizer.
\<close>

definition processImageAndLocation_position ::
  "jsstring option \<Rightarrow> app_state \<Rightarrow> position_result \<Rightarrow> app_state \<Rightarrow> step" where
  "processImageAndLocation_position uri rendered p s =
     (case p of
        PositionSuccess position \<Rightarrow>
          (let loc = \<lparr>latitude = latitude position, longitude = longitude position\<rparr>
           in (s\<lparr>location := Some loc\<rparr>, [Recognize uri],
               Some (Process_recognize uri (Some loc) rendered)))
      | PositionError code \<Rightarrow>
          (s\<lparr>location := None\<rparr>, [Recognize uri],
           Some (Process_recognize uri None rendered))
      | PositionThrew \<Rightarrow>
          (s\<lparr>location := None\<rparr>, [Recognize uri],
           Some (Process_recognize uri None rendered)))"

text \<open>
  The recognizer settles. \<^verbatim>\<open>part_001\<close> then adds the history entry; \<open>extractedText\<close>
  and \<open>location\<close> in it are the closure's variables, that is the rendered state.
\<close>

definition processImageAndLocation_recognize ::
  "source_file \<Rightarrow> jsstring option \<Rightarrow> coords option \<Rightarrow> app_state \<Rightarrow> nat
     \<Rightarrow> recognize_result \<Rightarrow> app_state \<Rightarrow> step" where
  "processImageAndLocation_recognize f uri loc rendered now r s =
     (let s1 =
        (case r of
           RecognizeResolved result \<Rightarrow>
             (case result of
                None \<Rightarrow> s\<lparr>extractedText := noTextDetected (ui f)\<rparr>
              | Some res \<Rightarrow>
                 if truthy (result_text res)
                 then (case result_text res of
                         Some t \<Rightarrow>
                           s\<lparr>extractedText :=
                               (if trim t \<noteq> [] then t else noTextDetected (ui f))\<rparr>
                       | None \<Rightarrow> s\<lparr>extractedText := noTextDetected (ui f)\<rparr>)
                 else s\<lparr>extractedText := noTextDetected (ui f)\<rparr>)
         | RecognizeRejected err \<Rightarrow>
             s\<lparr>extractedText := ocrFailed (ui f) @ orElse (message err) (unknownError (ui f))\<rparr>);
          s2 = s1\<lparr>loading := False\<rparr>
      in case f of
           App_js \<Rightarrow> (s2, [], None)
         | Part_001 \<Rightarrow>
             (s2\<lparr>history :=
                   \<lparr>entry_imageUri = uri, entry_extractedText = extractedText rendered,
                    entry_location = location rendered, entry_timestamp = now\<rparr>
                   # history s2\<rparr>,
              [], None))"

subsection \<open>handleTakePhoto and handleSelectFromGallery\<close>

definition handleTakePhoto :: "device \<Rightarrow> app_state \<Rightarrow> step" where
  "handleTakePhoto dev s =
     (let s1 = s\<lparr>saveStatus := None, copyStatus := None, extractedText := [],
                  location := None, imageUri := None, imageSource := None\<rparr>
      in if OS dev = Android
         then (s1, [RequestPermission CAMERA], Some (TakePhoto_permission s))
         else (s1, [LaunchCamera], Some (TakePhoto_camera s)))"

definition handleTakePhoto_permission ::
  "source_file \<Rightarrow> app_state \<Rightarrow> permission_result \<Rightarrow> app_state \<Rightarrow> step" where
  "handleTakePhoto_permission f rendered cameraGranted s =
     (if \<not> requestAndroidPermission cameraGranted
      then (s, [Alert (permissionDenied (ui f)) (cameraRequired (ui f))], None)
      else (s, [LaunchCamera], Some (TakePhoto_camera rendered)))"

text \<open>The \<^verbatim>\<open>launchCamera\<close> callback.\<close>

definition handleTakePhoto_camera ::
  "source_file \<Rightarrow> device \<Rightarrow> app_state \<Rightarrow> picker_response \<Rightarrow> app_state \<Rightarrow> step" where
  "handleTakePhoto_camera f dev rendered response s =
     (if didCancel response then (s, [], None)
      else if truthy (errorCode response)
      then (s, [Alert (cameraError (ui f))
                  (orElse (errorMessage response) (unknownError (ui f)))], None)
      else (case assets response of
              Some (a # others) \<Rightarrow>
                processImageAndLocation dev (asset_uri a) rendered
                  (s\<lparr>imageUri := asset_uri a, imageSource := Some Camera\<rparr>)
            | _ \<Rightarrow> (s, [], None)))"

definition handleSelectFromGallery :: "device \<Rightarrow> app_state \<Rightarrow> step" where
  "handleSelectFromGallery dev s =
     (let s1 = s\<lparr>saveStatus := None, copyStatus := None, extractedText := [],
                  location := None, imageUri := None, imageSource := None\<rparr>
      in if OS dev = Android
         then (s1, [RequestPermission READ_EXTERNAL_STORAGE],
               Some (SelectFromGallery_permission s))
         else (s1, [LaunchImageLibrary], Some (SelectFromGallery_library s)))"

definition handleSelectFromGallery_permission ::
  "source_file \<Rightarrow> app_state \<Rightarrow> permission_result \<Rightarrow> app_state \<Rightarrow> step" where
  "handleSelectFromGallery_permission f rendered storageGranted s =
     (if \<not> requestAndroidPermission storageGranted
      then (s, [Alert (permissionDenied (ui f)) (storageRequired (ui f))], None)
      else (s, [LaunchImageLibrary], Some (SelectFromGallery_library rendered)))"

text \<open>The \<^verbatim>\<open>launchImageLibrary\<close> callback.\<close>

definition handleSelectFromGallery_library ::
  "source_file \<Rightarrow> device \<Rightarrow> app_state \<Rightarrow> picker_response \<Rightarrow> app_state \<Rightarrow> step" where
  "handleSelectFromGallery_library f dev rendered response s =
     (if didCancel response then (s, [], None)
      else if truthy (errorCode response)
      then (s, [Alert (galleryError (ui f))
                  (orElse (errorMessage response) (unknownError (ui f)))], None)
      else (case assets response of
              Some (a # others) \<Rightarrow>
                processImageAndLocation dev (asset_uri a) rendered
                  (s\<lparr>imageUri := asset_uri a, imageSource := Some Gallery\<rparr>)
            | _ \<Rightarrow> (s, [], None)))"

subsection \<open>The four actions\<close>

text \<open>
  A button handler reads the state of the render it belongs to, which is the live
  state when the button is pressed.
\<close>

definition handleSavePhoto :: "device \<Rightarrow> app_state \<Rightarrow> step" where
  "handleSavePhoto dev s =
     (if \<not> truthy (imageUri s) \<or> imageSource s \<noteq> Some Camera then (s, [], None)
      else (let s1 = s\<lparr>saveStatus := None\<rparr>
            in if OS dev = Android
               then (s1, [RequestPermission WRITE_EXTERNAL_STORAGE],
                     Some (SavePhoto_permission s))
               else (s1, [CameraRollSave (imageUri s)], Some SavePhoto_save)))"

definition handleSavePhoto_permission ::
  "source_file \<Rightarrow> app_state \<Rightarrow> permission_result \<Rightarrow> app_state \<Rightarrow> step" where
  "handleSavePhoto_permission f rendered writeGranted s =
     (if \<not> requestAndroidPermission writeGranted
      then (s, [Alert (permissionDenied (ui f)) (storageRequired (ui f))], None)
      else (s, [CameraRollSave (imageUri rendered)], Some SavePhoto_save))"

definition handleSavePhoto_save :: "source_file \<Rightarrow> promise_result \<Rightarrow> app_state \<Rightarrow> step" where
  "handleSavePhoto_save f r s =
     (case r of
        Fulfilled \<Rightarrow>
          (s\<lparr>saveStatus := Some (lit ''Photo saved to gallery.'')\<rparr>,
           [Alert (success (ui f)) (photoSaved (ui f))], None)
      | RejectedWith err \<Rightarrow>
          (s\<lparr>saveStatus := Some (lit ''Failed to save photo.'')\<rparr>,
           [Alert (errorTitle (ui f))
              (savePhotoFailed (ui f) @ orElse (message err) (unknownError (ui f)))],
           None))"

text \<open>
  The guard shared by the three text actions, with the literals both files test:
  \<^verbatim>\<open>!extractedText || extractedText.startsWith('No text') ||
  extractedText.startsWith('OCR failed')\<close>.
\<close>

definition noValidText :: "jsstring \<Rightarrow> bool" where
  "noValidText t =
     (t = [] \<or> startsWith t (lit ''No text'') \<or> startsWith t (lit ''OCR failed''))"

definition handleShareText :: "app_state \<Rightarrow> step" where
  "handleShareText s =
     (if noValidText (extractedText s) then (s, [], None)
      else (s, [Share (extractedText s)], Some ShareText_share))"

definition handleShareText_share :: "source_file \<Rightarrow> promise_result \<Rightarrow> app_state \<Rightarrow> step" where
  "handleShareText_share f r s =
     (case r of
        Fulfilled \<Rightarrow> (s, [], None)
      | RejectedWith err \<Rightarrow>
          (s, [Alert (errorTitle (ui f))
                 (shareFailed (ui f) @ orElse (message err) (unknownError (ui f)))],
           None))"

definition handleCopyText :: "source_file \<Rightarrow> app_state \<Rightarrow> step" where
  "handleCopyText f s =
     (if noValidText (extractedText s) then (s, [], None)
      else (s\<lparr>copyStatus := Some (copied (ui f))\<rparr>,
            [ClipboardSetString (extractedText s), SetTimeout 1500],
            Some CopyText_timeout))"

definition handleCopyText_timeout :: "app_state \<Rightarrow> step" where
  "handleCopyText_timeout s = (s\<lparr>copyStatus := None\<rparr>, [], None)"

text \<open>The template literal \<^verbatim>\<open>`${dir}/ocr_result_${Date.now()}.txt`\<close>.\<close>

definition filePath :: "jsstring \<Rightarrow> nat \<Rightarrow> jsstring" where
  "filePath dir now = dir @ lit ''/ocr_result_'' @ decimal now @ lit ''.txt''"

text \<open>
  \<^verbatim>\<open>handleSaveTextToFile\<close>. In \<^verbatim>\<open>App.js\<close> Android with a Downloads directory asks for
  the storage permission and gives up on a denial; \<^verbatim>\<open>part_001\<close> asks only below API
  level 30 and falls back to the documents directory. \<open>now\<close> is \<^verbatim>\<open>Date.now()\<close> in
  the segment that builds the path.
\<close>

definition handleSaveTextToFile ::
  "source_file \<Rightarrow> device \<Rightarrow> nat \<Rightarrow> app_state \<Rightarrow> step" where
  "handleSaveTextToFile f dev now s =
     (if noValidText (extractedText s) then (s, [], None)
      else (let s1 = s\<lparr>saveStatus := None\<rparr>;
                direct = (s1, [WriteFile (filePath (DocumentDirectoryPath dev) now)
                                 (extractedText s) (lit ''utf8'')],
                          Some (SaveText_write (filePath (DocumentDirectoryPath dev) now)));
                ask = (s1, [RequestPermission WRITE_EXTERNAL_STORAGE],
                       Some (SaveText_permission s))
            in case f of
                 App_js \<Rightarrow>
                   if OS dev = Android \<and> truthy (DownloadDirectoryPath dev) then ask
                   else direct
               | Part_001 \<Rightarrow>
                   if OS dev = Android
                   then (if Version dev \<ge> 30 then direct
                         else if truthy (DownloadDirectoryPath dev) then ask
                         else direct)
                   else direct))"

definition handleSaveTextToFile_permission ::
  "source_file \<Rightarrow> device \<Rightarrow> nat \<Rightarrow> app_state \<Rightarrow> permission_result \<Rightarrow> app_state \<Rightarrow> step"
  where
  "handleSaveTextToFile_permission f dev now rendered writeGranted s =
     (let download = (case DownloadDirectoryPath dev of Some d \<Rightarrow> d | None \<Rightarrow> [])
      in case f of
           App_js \<Rightarrow>
             if \<not> requestAndroidPermission writeGranted
             then (s, [Alert (lit ''Permission Denied'')
                         (lit ''Storage permission is required.'')], None)
             else (s, [WriteFile (filePath download now) (extractedText rendered)
                         (lit ''utf8'')],
                   Some (SaveText_write (filePath download now)))
         | Part_001 \<Rightarrow>
             if requestAndroidPermission writeGranted
             then (s, [WriteFile (filePath download now) (extractedText rendered)
                         (lit ''utf8'')],
                   Some (SaveText_write (filePath download now)))
             else (s, [Alert (lit ''Dozvola odbijena'')
                         (lit ''Potrebna je dozvola za skladi'' @ [353] @ lit ''tenje. ''
                          @ [268] @ lit ''uvanje u privatnu memoriju aplikacije.''),
                       WriteFile (filePath (DocumentDirectoryPath dev) now)
                         (extractedText rendered) (lit ''utf8'')],
                   Some (SaveText_write (filePath (DocumentDirectoryPath dev) now))))"

definition handleSaveTextToFile_write ::
  "source_file \<Rightarrow> jsstring \<Rightarrow> promise_result \<Rightarrow> app_state \<Rightarrow> step" where
  "handleSaveTextToFile_write f path r s =
     (case f of
        App_js \<Rightarrow>
          (case r of
             Fulfilled \<Rightarrow>
               (s\<lparr>saveStatus := Some (lit ''Text saved to file:'' @ [10] @ path)\<rparr>,
                [Alert (lit ''Success'') (lit ''Text saved to file:'' @ [10] @ path)], None)
           | RejectedWith err \<Rightarrow>
               (s\<lparr>saveStatus := Some (lit ''Failed to save text.'')\<rparr>,
                [Alert (lit ''Error'')
                   (lit ''Failed to save text: ''
                    @ orElse (message err) (lit ''Unknown error''))], None))
      | Part_001 \<Rightarrow>
          (case r of
             Fulfilled \<Rightarrow>
               (s\<lparr>saveStatus :=
                    Some (lit ''Tekst je sa'' @ [269] @ lit ''uvan u fajl:'' @ [10] @ path)\<rparr>,
                [Alert (lit ''Uspeh'')
                   (lit ''Tekst je sa'' @ [269] @ lit ''uvan u fajl:'' @ [10] @ path)], None)
           | RejectedWith err \<Rightarrow>
               (s\<lparr>saveStatus :=
                    Some (lit ''Neuspe'' @ [353] @ lit ''no '' @ [269] @ lit ''uvanje teksta.'')\<rparr>,
                [Alert (lit ''Gre'' @ [353] @ lit ''ka'')
                   (lit ''Neuspe'' @ [353] @ lit ''no '' @ [269] @ lit ''uvanje teksta: ''
                    @ orElse (message err)
                        (lit ''Nepoznata gre'' @ [353] @ lit ''ka''))], None)))"

section \<open>The event loop\<close>

text \<open>
  What a collaborator answers to a pending continuation, and which segment the answer
  resumes. An answer of a kind the continuation does not wait for is not consumed: the
  continuation stays pending.
\<close>

datatype response =
    PermissionAnswer permission_result
  | PickerAnswer picker_response
  | PositionAnswer position_result
  | RecognizeAnswer recognize_result
  | PromiseAnswer promise_result
  | TimerFired

definition resume ::
  "source_file \<Rightarrow> device \<Rightarrow> nat \<Rightarrow> task \<Rightarrow> response \<Rightarrow> app_state \<Rightarrow> step" where
  "resume f dev now t r s =
     (case t of
        TakePhoto_permission rendered \<Rightarrow>
          (case r of PermissionAnswer g \<Rightarrow> handleTakePhoto_permission f rendered g s
           | _ \<Rightarrow> (s, [], Some t))
      | TakePhoto_camera rendered \<Rightarrow>
          (case r of PickerAnswer p \<Rightarrow> handleTakePhoto_camera f dev rendered p s
           | _ \<Rightarrow> (s, [], Some t))
      | SelectFromGallery_permission rendered \<Rightarrow>
          (case r of PermissionAnswer g \<Rightarrow> handleSelectFromGallery_permission f rendered g s
           | _ \<Rightarrow> (s, [], Some t))
      | SelectFromGallery_library rendered \<Rightarrow>
          (case r of PickerAnswer p \<Rightarrow> handleSelectFromGallery_library f dev rendered p s
           | _ \<Rightarrow> (s, [], Some t))
      | Process_permission uri rendered \<Rightarrow>
          (case r of PermissionAnswer g \<Rightarrow> processImageAndLocation_permission uri rendered g s
           | _ \<Rightarrow> (s, [], Some t))
      | Process_position uri rendered \<Rightarrow>
          (case r of PositionAnswer p \<Rightarrow> processImageAndLocation_position uri rendered p s
           | _ \<Rightarrow> (s, [], Some t))
      | Process_recognize uri loc rendered \<Rightarrow>
          (case r of
             RecognizeAnswer x \<Rightarrow> processImageAndLocation_recognize f uri loc rendered now x s
           | _ \<Rightarrow> (s, [], Some t))
      | SavePhoto_permission rendered \<Rightarrow>
          (case r of PermissionAnswer g \<Rightarrow> handleSavePhoto_permission f rendered g s
           | _ \<Rightarrow> (s, [], Some t))
      | SavePhoto_save \<Rightarrow>
          (case r of PromiseAnswer x \<Rightarrow> handleSavePhoto_save f x s
           | _ \<Rightarrow> (s, [], Some t))
      | ShareText_share \<Rightarrow>
          (case r of PromiseAnswer x \<Rightarrow> handleShareText_share f x s
           | _ \<Rightarrow> (s, [], Some t))
      | CopyText_timeout \<Rightarrow>
          (case r of TimerFired \<Rightarrow> handleCopyText_timeout s
           | _ \<Rightarrow> (s, [], Some t))
      | SaveText_permission rendered \<Rightarrow>
          (case r of
             PermissionAnswer g \<Rightarrow> handleSaveTextToFile_permission f dev now rendered g s
           | _ \<Rightarrow> (s, [], Some t))
      | SaveText_write path \<Rightarrow>
          (case r of PromiseAnswer x \<Rightarrow> handleSaveTextToFile_write f path x s
           | _ \<Rightarrow> (s, [], Some t)))"

datatype button =
  TakePhoto | SelectFromGallery | SavePhoto | ShareText | CopyText | SaveTextToFile

fun press :: "source_file \<Rightarrow> device \<Rightarrow> nat \<Rightarrow> button \<Rightarrow> app_state \<Rightarrow> step" where
  "press f dev now TakePhoto s = handleTakePhoto dev s"
| "press f dev now SelectFromGallery s = handleSelectFromGallery dev s"
| "press f dev now SavePhoto s = handleSavePhoto dev s"
| "press f dev now ShareText s = handleShareText s"
| "press f dev now CopyText s = handleCopyText f s"
| "press f dev now SaveTextToFile s = handleSaveTextToFile f dev now s"

text \<open>
  One handler run in isolation: \<open>feed\<close> gives the next answer to the pending
  continuation and collects the calls; \<open>pipeline\<close> is \<^verbatim>\<open>processImageAndLocation\<close> from
  its call to its return, given what the permission prompt, the position service and
  the recognizer answer when they are asked.
\<close>

fun feed :: "source_file \<Rightarrow> device \<Rightarrow> nat \<Rightarrow> step \<Rightarrow> response \<Rightarrow> step" where
  "feed f dev now (s, effs, None) r = (s, effs, None)"
| "feed f dev now (s, effs, Some t) r =
     (case resume f dev now t r s of (s1, effs1, k) \<Rightarrow> (s1, effs @ effs1, k))"

definition pipeline ::
  "source_file \<Rightarrow> device \<Rightarrow> nat \<Rightarrow> jsstring option \<Rightarrow> app_state \<Rightarrow> permission_result
     \<Rightarrow> position_result \<Rightarrow> recognize_result \<Rightarrow> app_state \<Rightarrow> step" where
  "pipeline f dev now uri rendered g p r s =
     foldl (feed f dev now) (processImageAndLocation dev uri rendered s)
       [PermissionAnswer g, PositionAnswer p, RecognizeAnswer r]"

text \<open>
  Several handlers in flight. The system is the live state, the continuations by the
  number of the press that started them (\<open>None\<close> once finished), and the log of calls.
  An event is a button press or the settling of one pending continuation, stamped with
  the clock reading \<^verbatim>\<open>Date.now()\<close> would give.
\<close>

record system =
  app :: app_state
  tasks :: "task option list"
  calls :: "effect list"

datatype event = Press button | Settle nat response

definition start :: "app_state \<Rightarrow> system" where
  "start s = \<lparr>app = s, tasks = [], calls = []\<rparr>"

definition dispatch :: "source_file \<Rightarrow> device \<Rightarrow> system \<Rightarrow> nat \<times> event \<Rightarrow> system" where
  "dispatch f dev sys e =
     (case e of
        (now, Press b) \<Rightarrow>
          (case press f dev now b (app sys) of
             (s1, effs, k) \<Rightarrow>
               \<lparr>app = s1, tasks = tasks sys @ [k], calls = calls sys @ effs\<rparr>)
      | (now, Settle i r) \<Rightarrow>
          (if i < length (tasks sys)
           then (case tasks sys ! i of
                   None \<Rightarrow> sys
                 | Some t \<Rightarrow>
                     (case resume f dev now t r (app sys) of
                        (s1, effs, k) \<Rightarrow>
                          \<lparr>app = s1, tasks = (tasks sys)[i := k],
                           calls = calls sys @ effs\<rparr>))
           else sys))"

definition run :: "source_file \<Rightarrow> device \<Rightarrow> system \<Rightarrow> (nat \<times> event) list \<Rightarrow> system" where
  "run f dev sys es = foldl (dispatch f dev) sys es"

section \<open>The recognition outcome in the specification's words\<close>

text \<open>
  The specification's sum type: Recognized(text) when the recognizer returns text with
  non-blank content, Empty when the returned text is missing or blank, Failed(reason)
  when the invocation throws. The reason is the thrown error's message, if it has one.
\<close>

datatype RecognitionOutcome = Recognized jsstring | Empty | Failed "jsstring option"

definition blank :: "jsstring \<Rightarrow> bool" where
  "blank t = list_all isWhiteSpace t"

definition spec_outcome :: "recognize_result \<Rightarrow> RecognitionOutcome" where
  "spec_outcome r =
     (case r of
        RecognizeRejected err \<Rightarrow> Failed (message err)
      | RecognizeResolved result \<Rightarrow>
          (case result of
             None \<Rightarrow> Empty
           | Some res \<Rightarrow>
               (case result_text res of
                  None \<Rightarrow> Empty
                | Some t \<Rightarrow> if blank t then Empty else Recognized t)))"

text \<open>How each outcome is kept in the \<open>extractedText\<close> cell of a source file.\<close>

fun shown :: "source_file \<Rightarrow> RecognitionOutcome \<Rightarrow> jsstring" where
  "shown f (Recognized t) = t"
| "shown f Empty = noTextDetected (ui f)"
| "shown f (Failed reason) = ocrFailed (ui f) @ orElse reason (unknownError (ui f))"

text \<open>
  The coordinate in the specification's words: present only if the Positioning
  capability was granted (Android is where the app asks for it) and the positioning
  service returned a fix.
\<close>

definition coordinate_of :: "device \<Rightarrow> permission_result \<Rightarrow> position_result \<Rightarrow> coords option"
  where
  "coordinate_of dev g p =
     (if OS dev = Android \<and> g \<noteq> GRANTED then None
      else (case p of PositionSuccess c \<Rightarrow> Some c | _ \<Rightarrow> None))"

text \<open>The calls of the positioning attempt, in order.\<close>

definition asked :: "device \<Rightarrow> permission_result \<Rightarrow> effect list" where
  "asked dev g =
     (if OS dev = Android
      then (if g = GRANTED
            then [RequestPermission ACCESS_FINE_LOCATION, GetCurrentPosition True 10000 10000]
            else [RequestPermission ACCESS_FINE_LOCATION])
      else [GetCurrentPosition True 10000 10000])"

text \<open>Example devices and inputs.\<close>

definition iphone :: device where
  "iphone = \<lparr>OS = IOS, Version = 17, DocumentDirectoryPath = lit ''/Documents'',
     DownloadDirectoryPath = None\<rparr>"

definition pixel :: device where
  "pixel = \<lparr>OS = Android, Version = 29, DocumentDirectoryPath = lit ''/data/files'',
     DownloadDirectoryPath = Some (lit ''/sdcard/Download'')\<rparr>"

definition picked :: "string \<Rightarrow> picker_response" where
  "picked name = \<lparr>didCancel = False, errorCode = None, errorMessage = None,
     assets = Some [\<lparr>asset_uri = Some (lit name)\<rparr>]\<rparr>"

definition reads :: "string \<Rightarrow> recognize_result" where
  "reads t = RecognizeResolved (Some \<lparr>result_text = Some (lit t)\<rparr>)"

text \<open>
  A finished scan with recognized text, and two acquisitions in flight: the first still
  waits for its recognizer, the second, whose image is already shown, for its position.
\<close>

definition ready :: app_state where
  "ready = initial\<lparr>imageUri := Some (lit ''a.jpg''), imageSource := Some Camera,
     extractedText := lit ''TOTAL 45.00''\<rparr>"

definition overlapping :: system where
  "overlapping =
     \<lparr>app = initial\<lparr>imageUri := Some (lit ''b.jpg''), imageSource := Some Camera,
              loading := True\<rparr>,
      tasks = [Some (Process_recognize (Some (lit ''a.jpg'')) None initial),
               Some (Process_position (Some (lit ''b.jpg'')) initial)],
      calls = []\<rparr>"

text \<open>When \<^verbatim>\<open>handleSaveTextToFile\<close> asks for the storage permission before writing.\<close>

definition asksStorage :: "source_file \<Rightarrow> device \<Rightarrow> bool" where
  "asksStorage f dev =
     (OS dev = Android \<and> truthy (DownloadDirectoryPath dev)
      \<and> (case f of App_js \<Rightarrow> True | Part_001 \<Rightarrow> Version dev < 30))"

definition isWrite :: "effect \<Rightarrow> bool" where
  "isWrite e = (case e of WriteFile path contents encoding \<Rightarrow> True | _ \<Rightarrow> False)"

definition isAlert :: "effect \<Rightarrow> bool" where
  "isAlert e = (case e of Alert title body \<Rightarrow> True | _ \<Rightarrow> False)"

definition isRecognize :: "effect \<Rightarrow> bool" where
  "isRecognize e = (case e of Recognize uri \<Rightarrow> True | _ \<Rightarrow> False)"

section \<open>Auxiliary facts\<close>

text \<open>Unfolding sets for evaluating concrete runs.\<close>

lemmas segments =
  processImageAndLocation_def processImageAndLocation_permission_def
  processImageAndLocation_position_def processImageAndLocation_recognize_def
  handleTakePhoto_def handleTakePhoto_permission_def handleTakePhoto_camera_def
  handleSelectFromGallery_def handleSelectFromGallery_permission_def
  handleSelectFromGallery_library_def handleSavePhoto_def handleSavePhoto_permission_def
  handleSavePhoto_save_def handleShareText_def handleShareText_share_def handleCopyText_def
  handleCopyText_timeout_def handleSaveTextToFile_def handleSaveTextToFile_permission_def
  handleSaveTextToFile_write_def

lemmas loop = run_def start_def dispatch_def resume_def Let_def

lemmas inputs = iphone_def pixel_def picked_def reads_def initial_def lit_def

lemmas strings = truthy_def orElse_def trim_def isWhiteSpace_def noValidText_def

lemma dropWhile_all: "(\<forall>x\<in>set (dropWhile P xs). P x) \<longleftrightarrow> (\<forall>x\<in>set xs. P x)"
  by (induction xs) auto

lemma trim_empty_iff: "trim t = [] \<longleftrightarrow> blank t"
  by (simp add: trim_def blank_def dropWhile_eq_Nil_conv list_all_iff dropWhile_all)

lemma blank_Nil: "blank []" by (simp add: blank_def)

lemma not_blank_nonempty: "\<not> blank t \<Longrightarrow> t \<noteq> []"
  by (auto simp: blank_def)

lemma outcome_text_nonempty: "shown f (spec_outcome r) \<noteq> []"
proof (cases "spec_outcome r")
  case (Recognized t)
  then have "\<not> blank t"
    by (auto simp: spec_outcome_def split: recognize_result.splits option.splits if_splits)
  with Recognized show ?thesis by (simp add: not_blank_nonempty)
next
  case Empty
  then show ?thesis by (cases f) (simp_all add: lit_def)
next
  case (Failed reason)
  then show ?thesis by (cases f) (simp_all add: lit_def)
qed

lemma recognize_writes_outcome:
  "processImageAndLocation_recognize f uri loc rendered now r s = (s1, effs, k) \<Longrightarrow>
     extractedText s1 = shown f (spec_outcome r) \<and> loading s1 = False \<and> effs = [] \<and> k = None
     \<and> location s1 = location s \<and> imageUri s1 = imageUri s \<and> imageSource s1 = imageSource s"
  by (cases f; cases r)
     (auto simp: processImageAndLocation_recognize_def spec_outcome_def Let_def truthy_def
        trim_empty_iff blank_Nil split: option.splits)

lemma coords_copy: "\<lparr>latitude = latitude c, longitude = longitude c\<rparr> = (c::coords)"
  by (cases c) simp

lemma granted_iff: "requestAndroidPermission g \<longleftrightarrow> g = GRANTED"
  by (cases g) (simp_all add: requestAndroidPermission_def)

lemma pipeline_unfold:
  "pipeline f dev now uri rendered g p r s =
     (case processImageAndLocation_recognize f uri (coordinate_of dev g p) rendered now r
             (s\<lparr>loading := True, extractedText := [], location := coordinate_of dev g p\<rparr>) of
        (s1, e, k) \<Rightarrow> (s1, asked dev g @ Recognize uri # e, k))"
  by (cases "OS dev"; cases g; cases p)
     (simp_all add: pipeline_def processImageAndLocation_def processImageAndLocation_permission_def
        processImageAndLocation_position_def resume_def coordinate_of_def asked_def
        requestAndroidPermission_def coords_copy Let_def split: prod.splits)

lemma pipeline_calls:
  "fst (snd (pipeline f dev now uri rendered g p r s)) = asked dev g @ [Recognize uri]"
proof -
  obtain s2 e2 k2 where rec:
    "processImageAndLocation_recognize f uri (coordinate_of dev g p) rendered now r
       (s\<lparr>loading := True, extractedText := [], location := coordinate_of dev g p\<rparr>)
     = (s2, e2, k2)"
    using prod_cases3 by blast
  from recognize_writes_outcome [OF rec] have "e2 = []" by simp
  with rec show ?thesis by (simp add: pipeline_unfold)
qed

lemma text_guard:
  "noValidText (extractedText s) \<Longrightarrow>
     handleShareText s = (s, [], None) \<and> handleCopyText f s = (s, [], None)
     \<and> handleSaveTextToFile f dev now s = (s, [], None)"
  by (simp add: handleShareText_def handleCopyText_def handleSaveTextToFile_def)

lemma app_js_outcome_gated:
  "(\<forall>t. spec_outcome r \<noteq> Recognized t) \<Longrightarrow> noValidText (shown App_js (spec_outcome r))"
  by (cases "spec_outcome r") (simp_all add: noValidText_def lit_def)

lemma decimal_small: "n < 10 \<Longrightarrow> decimal n = [48 + n]"
  by (subst decimal.simps) simp

lemma decimal_large: "\<not> n < 10 \<Longrightarrow> decimal n = decimal (n div 10) @ [48 + n mod 10]"
  by (subst decimal.simps) simp

lemma decimal_nonempty: "decimal n \<noteq> []"
  by (cases "n < 10") (simp_all add: decimal_small decimal_large)

lemma decimal_length_one: "length (decimal n) = Suc 0 \<longleftrightarrow> n < 10"
proof (cases "n < 10")
  case True
  then show ?thesis by (simp add: decimal_small)
next
  case False
  have "length (decimal (n div 10)) \<noteq> 0" using decimal_nonempty [of "n div 10"] by simp
  with False show ?thesis by (simp add: decimal_large)
qed

lemma decimal_inj: "decimal n = decimal m \<Longrightarrow> n = m"
proof (induction n arbitrary: m rule: decimal.induct)
  case (1 n)
  show ?case
  proof (cases "n < 10")
    case True
    then have "length (decimal m) = Suc 0" using "1.prems" decimal_length_one [of n] by simp
    then have "m < 10" by (simp add: decimal_length_one)
    with True "1.prems" show ?thesis by (simp add: decimal_small)
  next
    case False
    then have "length (decimal m) \<noteq> Suc 0" using "1.prems" decimal_length_one [of n] by simp
    then have m: "\<not> m < 10" by (simp add: decimal_length_one)
    from "1.prems" False m
    have eq: "decimal (n div 10) = decimal (m div 10)" and md: "n mod 10 = m mod 10"
      by (simp_all add: decimal_large)
    from "1.IH" [OF False eq] have "n div 10 = m div 10" .
    with md show ?thesis by (metis div_mult_mod_eq)
  qed
qed

lemma filePath_inj: "filePath d n = filePath d m \<longleftrightarrow> n = m"
  by (auto simp: filePath_def dest: decimal_inj)

text \<open>
  In \<^verbatim>\<open>part_001\<close> the messages written for an empty or failed recognition were
  translated, while the guard of the text actions still tests the English prefixes:
  the translated messages pass it.
\<close>

lemma part_001_outcome_not_gated:
  "\<not> noValidText (shown Part_001 Empty) \<and> \<not> noValidText (shown Part_001 (Failed reason))"
  by (simp add: noValidText_def lit_def)

section \<open>The claims\<close>

text \<open>
  C1, as stated: for every scan record whose recognition outcome is Empty or Failed,
  persistImage, exportText, shareText and copyText are all no-ops that invoke no
  collaborator. This fails for persistImage: \<^verbatim>\<open>handleSavePhoto\<close> tests the image and its
  provenance only. Below, \<^verbatim>\<open>App.js\<close> on an iPhone scans a camera photo whose text is
  blank (outcome Empty); pressing Save Photo then calls \<^verbatim>\<open>CameraRoll.save\<close>.
\<close>

theorem C1_persistImage_after_empty_counterexample:
  "calls (run App_js iphone (start initial)
     [(5, Press TakePhoto), (6, Settle 0 (PickerAnswer (picked ''a.jpg''))),
      (7, Settle 0 (PositionAnswer (PositionError 3))),
      (8, Settle 0 (RecognizeAnswer (reads ''  ''))), (9, Press SavePhoto)])
   = [LaunchCamera, GetCurrentPosition True 10000 10000, Recognize (Some (lit ''a.jpg'')),
      CameraRollSave (Some (lit ''a.jpg''))]
   \<and> spec_outcome (reads ''  '') = Empty"
  by (simp add: loop segments inputs strings spec_outcome_def blank_def)

text \<open>
  C1, amended: for every scan record that \<^verbatim>\<open>App.js\<close> produces with outcome Empty or
  Failed, and more generally for every state whose text is unset or begins with
  \<^verbatim>\<open>No text\<close> or \<^verbatim>\<open>OCR failed\<close>, exportText, shareText and copyText change nothing,
  invoke no collaborator and leave nothing pending; persistImage is such a no-op when
  there is no image or its provenance is not the camera, and otherwise proceeds (to the
  storage permission on Android, to the save elsewhere), whatever the recognition
  outcome.
\<close>

theorem C1_actions_gated:
  "(pipeline App_js dev now uri rendered g p r s0 = (s, effs, k)
      \<and> (\<forall>t. spec_outcome r \<noteq> Recognized t) \<longrightarrow>
        handleShareText s = (s, [], None) \<and> handleCopyText App_js s = (s, [], None)
        \<and> handleSaveTextToFile App_js dev later s = (s, [], None))
   \<and> (noValidText (extractedText s) \<longrightarrow>
        handleShareText s = (s, [], None) \<and> handleCopyText f s = (s, [], None)
        \<and> handleSaveTextToFile f dev later s = (s, [], None))
   \<and> (\<not> truthy (imageUri s) \<or> imageSource s \<noteq> Some Camera \<longrightarrow>
        handleSavePhoto dev s = (s, [], None))
   \<and> (truthy (imageUri s) \<and> imageSource s = Some Camera \<longrightarrow>
        fst (snd (handleSavePhoto dev s))
          = (if OS dev = Android then [RequestPermission WRITE_EXTERNAL_STORAGE]
             else [CameraRollSave (imageUri s)]))"
proof (intro conjI impI)
  assume a: "pipeline App_js dev now uri rendered g p r s0 = (s, effs, k)
      \<and> (\<forall>t. spec_outcome r \<noteq> Recognized t)"
  obtain s2 e2 k2 where rec:
    "processImageAndLocation_recognize App_js uri (coordinate_of dev g p) rendered now r
       (s0\<lparr>loading := True, extractedText := [], location := coordinate_of dev g p\<rparr>)
     = (s2, e2, k2)"
    using prod_cases3 by blast
  with a have "s = s2" by (simp add: pipeline_unfold)
  with recognize_writes_outcome [OF rec] a
  have "noValidText (extractedText s)" by (simp add: app_js_outcome_gated)
  from text_guard [OF this]
  show "handleShareText s = (s, [], None)" and "handleCopyText App_js s = (s, [], None)"
    and "handleSaveTextToFile App_js dev later s = (s, [], None)"
    by simp_all
next
  assume "noValidText (extractedText s)"
  from text_guard [OF this]
  show "handleShareText s = (s, [], None)" and "handleCopyText f s = (s, [], None)"
    and "handleSaveTextToFile f dev later s = (s, [], None)"
    by simp_all
next
  assume "\<not> truthy (imageUri s) \<or> imageSource s \<noteq> Some Camera"
  then show "handleSavePhoto dev s = (s, [], None)"
    by (auto simp: handleSavePhoto_def)
next
  assume "truthy (imageUri s) \<and> imageSource s = Some Camera"
  then show "fst (snd (handleSavePhoto dev s))
          = (if OS dev = Android then [RequestPermission WRITE_EXTERNAL_STORAGE]
             else [CameraRollSave (imageUri s)])"
    by (simp add: handleSavePhoto_def Let_def)
qed

text \<open>
  A gallery image whose recognition failed: none of the four actions does anything. A
  camera photo is saved.
\<close>

theorem C1_actions_gated_witness:
  "pipeline App_js iphone 8 (Some (lit ''a.jpg'')) initial GRANTED (PositionError 3)
     (RecognizeRejected \<lparr>message = Some (lit ''engine'')\<rparr>)
     (initial\<lparr>imageUri := Some (lit ''a.jpg''), imageSource := Some Gallery\<rparr>)
   = (initial\<lparr>imageUri := Some (lit ''a.jpg''), imageSource := Some Gallery,
        extractedText := lit ''OCR failed: engine''\<rparr>,
      [GetCurrentPosition True 10000 10000, Recognize (Some (lit ''a.jpg''))], None)
   \<and> spec_outcome (RecognizeRejected \<lparr>message = Some (lit ''engine'')\<rparr>)
       = Failed (Some (lit ''engine''))
   \<and> handleShareText (initial\<lparr>imageUri := Some (lit ''a.jpg''), imageSource := Some Gallery,
        extractedText := lit ''OCR failed: engine''\<rparr>)
     = (initial\<lparr>imageUri := Some (lit ''a.jpg''), imageSource := Some Gallery,
        extractedText := lit ''OCR failed: engine''\<rparr>, [], None)
   \<and> handleCopyText App_js (initial\<lparr>imageUri := Some (lit ''a.jpg''),
        imageSource := Some Gallery, extractedText := lit ''OCR failed: engine''\<rparr>)
     = (initial\<lparr>imageUri := Some (lit ''a.jpg''), imageSource := Some Gallery,
        extractedText := lit ''OCR failed: engine''\<rparr>, [], None)
   \<and> handleSaveTextToFile App_js iphone 9 (initial\<lparr>imageUri := Some (lit ''a.jpg''),
        imageSource := Some Gallery, extractedText := lit ''OCR failed: engine''\<rparr>)
     = (initial\<lparr>imageUri := Some (lit ''a.jpg''), imageSource := Some Gallery,
        extractedText := lit ''OCR failed: engine''\<rparr>, [], None)
   \<and> handleSavePhoto iphone (initial\<lparr>imageUri := Some (lit ''a.jpg''),
        imageSource := Some Gallery, extractedText := lit ''OCR failed: engine''\<rparr>)
     = (initial\<lparr>imageUri := Some (lit ''a.jpg''), imageSource := Some Gallery,
        extractedText := lit ''OCR failed: engine''\<rparr>, [], None)
   \<and> fst (snd (handleSavePhoto iphone ready)) = [CameraRollSave (Some (lit ''a.jpg''))]"
proof -
  have run: "pipeline App_js iphone 8 (Some (lit ''a.jpg'')) initial GRANTED (PositionError 3)
     (RecognizeRejected \<lparr>message = Some (lit ''engine'')\<rparr>)
     (initial\<lparr>imageUri := Some (lit ''a.jpg''), imageSource := Some Gallery\<rparr>)
   = (initial\<lparr>imageUri := Some (lit ''a.jpg''), imageSource := Some Gallery,
        extractedText := lit ''OCR failed: engine''\<rparr>,
      [GetCurrentPosition True 10000 10000, Recognize (Some (lit ''a.jpg''))], None)"
    by (simp add: pipeline_unfold processImageAndLocation_recognize_def coordinate_of_def
        asked_def iphone_def initial_def truthy_def orElse_def lit_def)
  have out: "spec_outcome (RecognizeRejected \<lparr>message = Some (lit ''engine'')\<rparr>)
       = Failed (Some (lit ''engine''))"
    by (simp add: spec_outcome_def)
  have failed: "\<forall>t. spec_outcome (RecognizeRejected \<lparr>message = Some (lit ''engine'')\<rparr>)
       \<noteq> Recognized t"
    by (simp add: out)
  have gallery: "imageSource (initial\<lparr>imageUri := Some (lit ''a.jpg''),
        imageSource := Some Gallery, extractedText := lit ''OCR failed: engine''\<rparr>)
      \<noteq> Some Camera"
    by simp
  have camera: "truthy (imageUri ready) \<and> imageSource ready = Some Camera"
    by (simp add: ready_def initial_def truthy_def lit_def)
  from camera
    C1_actions_gated [of iphone 8 None initial GRANTED "PositionError 3" "reads ''TOTAL''"
      initial ready "[]" None 9 App_js, THEN conjunct2, THEN conjunct2, THEN conjunct2]
  have saved: "fst (snd (handleSavePhoto iphone ready)) = [CameraRollSave (Some (lit ''a.jpg''))]"
    by (simp add: iphone_def ready_def initial_def)
  from C1_actions_gated [of iphone 8 "Some (lit ''a.jpg'')" initial GRANTED "PositionError 3"
      "RecognizeRejected \<lparr>message = Some (lit ''engine'')\<rparr>"
      "initial\<lparr>imageUri := Some (lit ''a.jpg''), imageSource := Some Gallery\<rparr>"
      "initial\<lparr>imageUri := Some (lit ''a.jpg''), imageSource := Some Gallery,
        extractedText := lit ''OCR failed: engine''\<rparr>"
      "[GetCurrentPosition True 10000 10000, Recognize (Some (lit ''a.jpg''))]" None 9 App_js]
    run out failed gallery saved
  show ?thesis by simp
qed

text \<open>
  C2. For every pipeline run, once processing finishes the recognition outcome is
  resolved to exactly one of three cases and never left pending: whatever the
  permission prompt, the position service and the recognizer answer, the run ends with
  no continuation pending and \<open>loading\<close> cleared, and \<open>extractedText\<close> holds the
  rendering of the specification's outcome of the recognizer's answer (the text itself
  when it has non-blank content, the no-text message when it is missing or blank, the
  failure prefix followed by the reason when the invocation threw), which is never the
  empty string of a pending run.
\<close>

theorem C2_recognition_outcome_resolved:
  assumes "pipeline f dev now uri rendered g p r s = (s1, effs, k)"
  shows "k = None \<and> loading s1 = False
         \<and> extractedText s1 = shown f (spec_outcome r) \<and> extractedText s1 \<noteq> []"
proof -
  obtain s2 e2 k2 where rec:
    "processImageAndLocation_recognize f uri (coordinate_of dev g p) rendered now r
       (s\<lparr>loading := True, extractedText := [], location := coordinate_of dev g p\<rparr>)
     = (s2, e2, k2)"
    by (cases "processImageAndLocation_recognize f uri (coordinate_of dev g p) rendered now r
       (s\<lparr>loading := True, extractedText := [], location := coordinate_of dev g p\<rparr>)") auto
  with assms have "s1 = s2" "k = k2" by (simp_all add: pipeline_unfold)
  with recognize_writes_outcome [OF rec] outcome_text_nonempty [of f r]
  show ?thesis by simp
qed

text \<open>The run of scenario A's text on an iPhone whose position query times out.\<close>

theorem C2_recognition_outcome_resolved_witness:
  "pipeline App_js iphone 8 (Some (lit ''a.jpg'')) initial GRANTED (PositionError 3)
     (reads ''INVOICE #102'') initial
   = (initial\<lparr>extractedText := lit ''INVOICE #102''\<rparr>,
      [GetCurrentPosition True 10000 10000, Recognize (Some (lit ''a.jpg''))], None)
   \<and> spec_outcome (reads ''INVOICE #102'') = Recognized (lit ''INVOICE #102'')
   \<and> extractedText (initial\<lparr>extractedText := lit ''INVOICE #102''\<rparr>) \<noteq> []"
proof -
  have run: "pipeline App_js iphone 8 (Some (lit ''a.jpg'')) initial GRANTED (PositionError 3)
     (reads ''INVOICE #102'') initial
   = (initial\<lparr>extractedText := lit ''INVOICE #102''\<rparr>,
      [GetCurrentPosition True 10000 10000, Recognize (Some (lit ''a.jpg''))], None)"
    by (simp add: pipeline_unfold processImageAndLocation_recognize_def coordinate_of_def
        asked_def iphone_def reads_def initial_def truthy_def trim_def isWhiteSpace_def lit_def)
  have out: "spec_outcome (reads ''INVOICE #102'') = Recognized (lit ''INVOICE #102'')"
    by (simp add: spec_outcome_def reads_def blank_def isWhiteSpace_def lit_def)
  from C2_recognition_outcome_resolved [OF run] run out show ?thesis by simp
qed

text \<open>
  C3, as stated: a positioning or recognition result that settles for a superseded
  acquisition after the discard is never applied to the new acquisition's visible
  state. The code has no generation counter or cancellation token. In the first run
  below the recognizer of photo a settles after photo b has replaced it: the state
  then shows image b with the text of a, and \<open>loading\<close> cleared while b is still being
  processed. In the second the position fix of a arrives after b was chosen and becomes
  b's coordinate.
\<close>

theorem C3_stale_result_applied_counterexample:
  "app (run App_js iphone (start initial)
     [(5, Press TakePhoto), (6, Settle 0 (PickerAnswer (picked ''a.jpg''))),
      (7, Settle 0 (PositionAnswer (PositionError 3))),
      (8, Press TakePhoto), (9, Settle 1 (PickerAnswer (picked ''b.jpg''))),
      (10, Settle 0 (RecognizeAnswer (reads ''TEXT OF A'')))])
   = \<lparr>imageUri = Some (lit ''b.jpg''), imageSource = Some Camera,
      extractedText = lit ''TEXT OF A'', location = None, loading = False,
      saveStatus = None, copyStatus = None, history = []\<rparr>
   \<and> location (app (run App_js iphone (start initial)
     [(5, Press TakePhoto), (6, Settle 0 (PickerAnswer (picked ''a.jpg''))),
      (8, Press TakePhoto), (9, Settle 1 (PickerAnswer (picked ''b.jpg''))),
      (10, Settle 0 (PositionAnswer (PositionSuccess \<lparr>latitude = 40.71, longitude = -74\<rparr>)))]))
     = Some \<lparr>latitude = 40.71, longitude = -74\<rparr>"
  by (simp add: loop segments inputs strings)

text \<open>
  C3, amended: there is no guard. When the recognition or positioning attempt of any
  acquisition still in flight settles, whatever else is in flight and whatever image
  the state shows by then, its result is written to the shared cells: a recognition
  result sets \<open>extractedText\<close> to its outcome and clears \<open>loading\<close>, a positioning
  result sets \<open>location\<close> to its fix or to null; the image shown is left as it is. A
  superseded acquisition's late result is thus applied to the new acquisition's visible
  state.
\<close>

theorem C3_settled_result_always_applied:
  "i < length (tasks sys) \<Longrightarrow>
   (tasks sys ! i = Some (Process_recognize uri loc rendered) \<longrightarrow>
      extractedText (app (dispatch f dev sys (now, Settle i (RecognizeAnswer r))))
        = shown f (spec_outcome r)
      \<and> loading (app (dispatch f dev sys (now, Settle i (RecognizeAnswer r)))) = False
      \<and> imageUri (app (dispatch f dev sys (now, Settle i (RecognizeAnswer r))))
        = imageUri (app sys))
   \<and> (tasks sys ! i = Some (Process_position uri rendered) \<longrightarrow>
      location (app (dispatch f dev sys (now, Settle i (PositionAnswer p))))
        = (case p of PositionSuccess c \<Rightarrow> Some c | _ \<Rightarrow> None)
      \<and> imageUri (app (dispatch f dev sys (now, Settle i (PositionAnswer p))))
        = imageUri (app sys))"
proof (intro conjI impI)
  assume i: "i < length (tasks sys)"
    and t: "tasks sys ! i = Some (Process_recognize uri loc rendered)"
  obtain s2 e2 k2 where rec:
    "processImageAndLocation_recognize f uri loc rendered now r (app sys) = (s2, e2, k2)"
    using prod_cases3 by blast
  from i t rec have "app (dispatch f dev sys (now, Settle i (RecognizeAnswer r))) = s2"
    by (simp add: dispatch_def resume_def)
  with recognize_writes_outcome [OF rec]
  show "extractedText (app (dispatch f dev sys (now, Settle i (RecognizeAnswer r))))
        = shown f (spec_outcome r)"
    and "loading (app (dispatch f dev sys (now, Settle i (RecognizeAnswer r)))) = False"
    and "imageUri (app (dispatch f dev sys (now, Settle i (RecognizeAnswer r))))
        = imageUri (app sys)"
    by simp_all
next
  assume i: "i < length (tasks sys)"
    and t: "tasks sys ! i = Some (Process_position uri rendered)"
  then show "location (app (dispatch f dev sys (now, Settle i (PositionAnswer p))))
        = (case p of PositionSuccess c \<Rightarrow> Some c | _ \<Rightarrow> None)"
    and "imageUri (app (dispatch f dev sys (now, Settle i (PositionAnswer p))))
        = imageUri (app sys)"
    by (cases p; simp add: dispatch_def resume_def processImageAndLocation_position_def
        coords_copy Let_def)+
qed

text \<open>Both attempts of two overlapping acquisitions write to the same cells.\<close>

theorem C3_settled_result_always_applied_witness:
  "extractedText (app (dispatch App_js iphone overlapping
       (10, Settle 0 (RecognizeAnswer (reads ''TEXT OF A''))))) = lit ''TEXT OF A''
   \<and> loading (app (dispatch App_js iphone overlapping
       (10, Settle 0 (RecognizeAnswer (reads ''TEXT OF A''))))) = False
   \<and> imageUri (app (dispatch App_js iphone overlapping
       (10, Settle 0 (RecognizeAnswer (reads ''TEXT OF A''))))) = Some (lit ''b.jpg'')
   \<and> location (app (dispatch App_js iphone overlapping
       (11, Settle 1 (PositionAnswer (PositionError 3))))) = None"
proof -
  have out: "shown App_js (spec_outcome (reads ''TEXT OF A'')) = lit ''TEXT OF A''"
    by (simp add: spec_outcome_def reads_def blank_def isWhiteSpace_def lit_def)
  have t0: "0 < length (tasks overlapping)" and t1: "1 < length (tasks overlapping)"
    by (simp_all add: overlapping_def)
  from C3_settled_result_always_applied [OF t0, of "Some (lit ''a.jpg'')" None initial
      App_js iphone 10 "reads ''TEXT OF A''" "PositionError 3"]
    C3_settled_result_always_applied [OF t1, of "Some (lit ''b.jpg'')" None initial
      App_js iphone 11 "reads ''TEXT OF A''" "PositionError 3"]
    out
  show ?thesis by (simp add: overlapping_def)
qed

text \<open>
  C4, as stated: for every pipeline run the coordinate is non-absent only if the
  capability was granted and the positioning service returned a fix, and every
  positioning failure yields an absent coordinate. The coordinate is the shared
  \<open>location\<close> cell, which any run in flight writes. Below, photo b is taken while the
  position query of photo a is still pending; b's own query fails, then a's fix
  arrives, then b's recognizer settles: run b finishes (nothing of it is pending) with
  a's fix as its coordinate.
\<close>

theorem C4_overlapped_run_keeps_other_fix_counterexample:
  "app (run App_js iphone (start initial)
     [(5, Press TakePhoto), (6, Settle 0 (PickerAnswer (picked ''a.jpg''))),
      (8, Press TakePhoto), (9, Settle 1 (PickerAnswer (picked ''b.jpg''))),
      (10, Settle 1 (PositionAnswer (PositionError 3))),
      (11, Settle 0 (PositionAnswer (PositionSuccess \<lparr>latitude = 40.71, longitude = -74\<rparr>))),
      (12, Settle 1 (RecognizeAnswer (reads ''TEXT OF B'')))])
   = \<lparr>imageUri = Some (lit ''b.jpg''), imageSource = Some Camera,
      extractedText = lit ''TEXT OF B'',
      location = Some \<lparr>latitude = 40.71, longitude = -74\<rparr>, loading = False,
      saveStatus = None, copyStatus = None, history = []\<rparr>
   \<and> tasks (run App_js iphone (start initial)
     [(5, Press TakePhoto), (6, Settle 0 (PickerAnswer (picked ''a.jpg''))),
      (8, Press TakePhoto), (9, Settle 1 (PickerAnswer (picked ''b.jpg''))),
      (10, Settle 1 (PositionAnswer (PositionError 3))),
      (11, Settle 0 (PositionAnswer (PositionSuccess \<lparr>latitude = 40.71, longitude = -74\<rparr>))),
      (12, Settle 1 (RecognizeAnswer (reads ''TEXT OF B'')))]) ! 1 = None"
  by (simp add: loop segments inputs strings)

text \<open>
  C4, amended: for every pipeline run that no other acquisition overlaps (its segments
  run with nothing of another run in between), the coordinate is present exactly when
  the positioning service called the success callback and, on Android, the location
  permission request was granted beforehand; other platforms make no request, a denial
  there reaches the app through the error callback. The bounded wait is the pair of
  options handed to the service, a 10000 ms timeout and a 10000 ms maximum age. Every
  positioning failure (denial, error callback such as a timeout, a throw) leaves the
  coordinate absent, raises no alert, and the run still calls the recognizer and
  completes with the recognition outcome.
\<close>

theorem C4_coordinate_only_from_fix:
  assumes "pipeline f dev now uri rendered g p r s = (s1, effs, k)"
  shows "location s1 = coordinate_of dev g p
         \<and> (location s1 \<noteq> None \<longrightarrow>
              (OS dev = Android \<longrightarrow> g = GRANTED) \<and> (\<exists>c. p = PositionSuccess c))
         \<and> (\<forall>e \<in> set effs. \<not> isAlert e)
         \<and> (\<forall>h t m. GetCurrentPosition h t m \<in> set effs \<longrightarrow> h \<and> t = 10000 \<and> m = 10000)
         \<and> Recognize uri \<in> set effs
         \<and> k = None \<and> loading s1 = False \<and> extractedText s1 = shown f (spec_outcome r)"
proof -
  obtain s2 e2 k2 where rec:
    "processImageAndLocation_recognize f uri (coordinate_of dev g p) rendered now r
       (s\<lparr>loading := True, extractedText := [], location := coordinate_of dev g p\<rparr>)
     = (s2, e2, k2)"
    by (cases "processImageAndLocation_recognize f uri (coordinate_of dev g p) rendered now r
       (s\<lparr>loading := True, extractedText := [], location := coordinate_of dev g p\<rparr>)") auto
  with assms have eq: "s1 = s2" "k = k2" "effs = asked dev g @ Recognize uri # e2"
    by (simp_all add: pipeline_unfold)
  from recognize_writes_outcome [OF rec] have fin:
    "extractedText s2 = shown f (spec_outcome r)" "loading s2 = False" "e2 = []" "k2 = None"
    "location s2 = coordinate_of dev g p" by simp_all
  have e: "effs = asked dev g @ [Recognize uri]" using eq fin by simp
  have c1: "location s1 = coordinate_of dev g p" using eq fin by simp
  have c2: "location s1 \<noteq> None \<longrightarrow>
      (OS dev = Android \<longrightarrow> g = GRANTED) \<and> (\<exists>c. p = PositionSuccess c)"
    unfolding c1 by (cases p) (auto simp: coordinate_of_def)
  have c3: "\<forall>e \<in> set effs. \<not> isAlert e"
    unfolding e by (auto simp: asked_def isAlert_def)
  have c4: "\<forall>h t m. GetCurrentPosition h t m \<in> set effs \<longrightarrow> h \<and> t = 10000 \<and> m = 10000"
    unfolding e by (auto simp: asked_def)
  have c5: "Recognize uri \<in> set effs" unfolding e by simp
  have c6: "k = None \<and> loading s1 = False \<and> extractedText s1 = shown f (spec_outcome r)"
    using eq fin by simp
  from c1 c2 c3 c4 c5 c6 show ?thesis by blast
qed

text \<open>
  A denied location permission on Android: no query, no coordinate, OCR still runs.
  With the permission granted and a fix returned, the coordinate is that fix.
\<close>

theorem C4_coordinate_only_from_fix_witness:
  "pipeline App_js pixel 8 (Some (lit ''a.jpg'')) initial DENIED
     (PositionSuccess \<lparr>latitude = 40.71, longitude = -74\<rparr>) (reads ''TOTAL'') initial
   = (initial\<lparr>extractedText := lit ''TOTAL''\<rparr>,
      [RequestPermission ACCESS_FINE_LOCATION, Recognize (Some (lit ''a.jpg''))], None)
   \<and> location (initial\<lparr>extractedText := lit ''TOTAL''\<rparr>) = None
   \<and> coordinate_of pixel DENIED (PositionSuccess \<lparr>latitude = 40.71, longitude = -74\<rparr>) = None
   \<and> pipeline App_js pixel 8 (Some (lit ''a.jpg'')) initial GRANTED
     (PositionSuccess \<lparr>latitude = 40.71, longitude = -74\<rparr>) (reads ''TOTAL'') initial
   = (initial\<lparr>extractedText := lit ''TOTAL'',
        location := Some \<lparr>latitude = 40.71, longitude = -74\<rparr>\<rparr>,
      [RequestPermission ACCESS_FINE_LOCATION, GetCurrentPosition True 10000 10000,
       Recognize (Some (lit ''a.jpg''))], None)
   \<and> OS pixel = Android"
proof -
  have run: "pipeline App_js pixel 8 (Some (lit ''a.jpg'')) initial DENIED
     (PositionSuccess \<lparr>latitude = 40.71, longitude = -74\<rparr>) (reads ''TOTAL'') initial
   = (initial\<lparr>extractedText := lit ''TOTAL''\<rparr>,
      [RequestPermission ACCESS_FINE_LOCATION, Recognize (Some (lit ''a.jpg''))], None)"
    by (simp add: pipeline_unfold processImageAndLocation_recognize_def coordinate_of_def
        asked_def pixel_def reads_def initial_def truthy_def trim_def isWhiteSpace_def lit_def)
  have run2: "pipeline App_js pixel 8 (Some (lit ''a.jpg'')) initial GRANTED
     (PositionSuccess \<lparr>latitude = 40.71, longitude = -74\<rparr>) (reads ''TOTAL'') initial
   = (initial\<lparr>extractedText := lit ''TOTAL'',
        location := Some \<lparr>latitude = 40.71, longitude = -74\<rparr>\<rparr>,
      [RequestPermission ACCESS_FINE_LOCATION, GetCurrentPosition True 10000 10000,
       Recognize (Some (lit ''a.jpg''))], None)"
    by (simp add: pipeline_unfold processImageAndLocation_recognize_def coordinate_of_def
        asked_def pixel_def reads_def initial_def truthy_def trim_def isWhiteSpace_def lit_def)
  note denied = C4_coordinate_only_from_fix [OF run, THEN conjunct1]
  note granted = C4_coordinate_only_from_fix [OF run2, THEN conjunct1]
  from denied granted run run2 show ?thesis
    by (simp add: coordinate_of_def pixel_def initial_def)
qed

text \<open>
  C5, as stated: for every acquire call, a denied capability ends acquire without the
  chooser being invoked. The capability request is guarded by
  \<^verbatim>\<open>Platform.OS === 'android'\<close>; elsewhere the chooser is launched at once, and a
  denied camera access comes back from it as the error code \<^verbatim>\<open>permission\<close>.
\<close>

theorem C5_ios_chooser_invoked_counterexample:
  "foldl (feed App_js iphone 5) (handleTakePhoto iphone initial)
     [PickerAnswer \<lparr>didCancel = False, errorCode = Some (lit ''permission''),
        errorMessage = None, assets = None\<rparr>]
   = (initial, [LaunchCamera, Alert (lit ''Camera Error'') (lit ''Unknown error'')], None)"
  by (simp add: loop segments inputs strings)

text \<open>
  C5, amended: on Android, if the capability request of the source (CAMERA for the
  camera, \<^verbatim>\<open>READ_EXTERNAL_STORAGE\<close> for the library) is not granted, acquire raises the
  permission-denied alert and ends with the cleared state, nothing pending and the
  chooser never invoked, even if a chooser answer were available. On other platforms
  acquire makes no capability request and invokes the chooser in its first segment.
\<close>

theorem C5_android_denial_skips_chooser:
  "(OS dev = Android \<and> g \<noteq> GRANTED \<longrightarrow>
      foldl (feed f dev now) (handleTakePhoto dev s) [PermissionAnswer g, PickerAnswer resp]
        = (s\<lparr>saveStatus := None, copyStatus := None, extractedText := [], location := None,
              imageUri := None, imageSource := None\<rparr>,
           [RequestPermission CAMERA,
            Alert (permissionDenied (ui f)) (cameraRequired (ui f))], None)
      \<and> foldl (feed f dev now) (handleSelectFromGallery dev s)
          [PermissionAnswer g, PickerAnswer resp]
        = (s\<lparr>saveStatus := None, copyStatus := None, extractedText := [], location := None,
              imageUri := None, imageSource := None\<rparr>,
           [RequestPermission READ_EXTERNAL_STORAGE,
            Alert (permissionDenied (ui f)) (storageRequired (ui f))], None))
   \<and> (OS dev \<noteq> Android \<longrightarrow>
        fst (snd (handleTakePhoto dev s)) = [LaunchCamera]
        \<and> fst (snd (handleSelectFromGallery dev s)) = [LaunchImageLibrary])"
  by (simp add: handleTakePhoto_def handleSelectFromGallery_def handleTakePhoto_permission_def
      handleSelectFromGallery_permission_def resume_def granted_iff Let_def)

text \<open>Never-ask-again on Android for both sources; the direct launch on an iPhone.\<close>

theorem C5_android_denial_skips_chooser_witness:
  "foldl (feed App_js pixel 5) (handleTakePhoto pixel initial)
      [PermissionAnswer NEVER_ASK_AGAIN, PickerAnswer (picked ''a.jpg'')]
    = (initial, [RequestPermission CAMERA,
         Alert (lit ''Permission Denied'') (lit ''Camera permission is required.'')], None)
   \<and> foldl (feed App_js pixel 5) (handleSelectFromGallery pixel initial)
      [PermissionAnswer NEVER_ASK_AGAIN, PickerAnswer (picked ''a.jpg'')]
    = (initial, [RequestPermission READ_EXTERNAL_STORAGE,
         Alert (lit ''Permission Denied'') (lit ''Storage permission is required.'')], None)
   \<and> fst (snd (handleTakePhoto iphone initial)) = [LaunchCamera]
   \<and> fst (snd (handleSelectFromGallery iphone initial)) = [LaunchImageLibrary]"
  using C5_android_denial_skips_chooser [of pixel NEVER_ASK_AGAIN App_js 5 initial
      "picked ''a.jpg''"]
    C5_android_denial_skips_chooser [of iphone NEVER_ASK_AGAIN App_js 5 initial
      "picked ''a.jpg''"]
  by (simp add: pixel_def iphone_def initial_def)

text \<open>
  C6, as stated: every acquisition first clears all prior pipeline state, status flags
  included, so that no stale result of a previous run is ever shown against the new
  acquisition. The handlers reset six cells; \<open>loading\<close> is not among them, and a
  pipeline still in flight is not stopped. Below, a second acquisition (from the
  library) starts while the first photo is still being recognized: \<open>loading\<close> stays set
  after the press, and when the first recognizer settles its text is shown while the
  library chooser of the new acquisition is still open.
\<close>

theorem C6_previous_run_still_shown_counterexample:
  "loading (app (run App_js iphone (start initial)
     [(5, Press TakePhoto), (6, Settle 0 (PickerAnswer (picked ''a.jpg''))),
      (7, Settle 0 (PositionAnswer (PositionError 3))),
      (8, Press SelectFromGallery)])) = True
   \<and> app (run App_js iphone (start initial)
     [(5, Press TakePhoto), (6, Settle 0 (PickerAnswer (picked ''a.jpg''))),
      (7, Settle 0 (PositionAnswer (PositionError 3))),
      (8, Press SelectFromGallery),
      (9, Settle 0 (RecognizeAnswer (reads ''TEXT OF A'')))])
   = \<lparr>imageUri = None, imageSource = None, extractedText = lit ''TEXT OF A'',
      location = None, loading = False, saveStatus = None, copyStatus = None,
      history = []\<rparr>
   \<and> tasks (run App_js iphone (start initial)
     [(5, Press TakePhoto), (6, Settle 0 (PickerAnswer (picked ''a.jpg''))),
      (7, Settle 0 (PositionAnswer (PositionError 3))),
      (8, Press SelectFromGallery),
      (9, Settle 0 (RecognizeAnswer (reads ''TEXT OF A'')))])
   = [None, Some (SelectFromGallery_library
        \<lparr>imageUri = Some (lit ''a.jpg''), imageSource = Some Camera, extractedText = [],
         location = None, loading = True, saveStatus = None, copyStatus = None,
         history = []\<rparr>)]"
  by (simp add: loop segments inputs strings)

text \<open>
  C6, amended: every acquisition, from the camera or the library, clears in its first
  segment the image, its provenance, the extracted text, the coordinate, the save
  status and the copy status, and makes its only collaborator call of that segment, the
  capability request on Android or the chooser launch elsewhere, with these already
  cleared; so nothing a previous run has stored is shown against the new acquisition.
  \<open>loading\<close> and \<open>history\<close> are left as they are.
\<close>

theorem C6_acquisition_clears_first:
  "fst (handleTakePhoto dev s)
     = s\<lparr>saveStatus := None, copyStatus := None, extractedText := [], location := None,
          imageUri := None, imageSource := None\<rparr>
   \<and> fst (handleSelectFromGallery dev s)
     = s\<lparr>saveStatus := None, copyStatus := None, extractedText := [], location := None,
          imageUri := None, imageSource := None\<rparr>
   \<and> fst (snd (handleTakePhoto dev s))
     = (if OS dev = Android then [RequestPermission CAMERA] else [LaunchCamera])
   \<and> fst (snd (handleSelectFromGallery dev s))
     = (if OS dev = Android then [RequestPermission READ_EXTERNAL_STORAGE]
        else [LaunchImageLibrary])
   \<and> loading (fst (handleTakePhoto dev s)) = loading s
   \<and> loading (fst (handleSelectFromGallery dev s)) = loading s
   \<and> history (fst (handleTakePhoto dev s)) = history s
   \<and> history (fst (handleSelectFromGallery dev s)) = history s"
  by (simp add: handleTakePhoto_def handleSelectFromGallery_def Let_def)

text \<open>A finished scan with both status messages shown is wiped by either button.\<close>

theorem C6_acquisition_clears_first_witness:
  "fst (handleTakePhoto pixel
      \<lparr>imageUri = Some (lit ''a.jpg''), imageSource = Some Camera,
       extractedText = lit ''TOTAL 45.00'',
       location = Some \<lparr>latitude = 40.71, longitude = -74\<rparr>, loading = False,
       saveStatus = Some (lit ''Photo saved to gallery.''), copyStatus = Some (lit ''Copied!''),
       history = []\<rparr>) = initial
   \<and> fst (handleSelectFromGallery pixel
      \<lparr>imageUri = Some (lit ''a.jpg''), imageSource = Some Camera,
       extractedText = lit ''TOTAL 45.00'',
       location = Some \<lparr>latitude = 40.71, longitude = -74\<rparr>, loading = False,
       saveStatus = Some (lit ''Photo saved to gallery.''), copyStatus = Some (lit ''Copied!''),
       history = []\<rparr>) = initial"
  using C6_acquisition_clears_first [of pixel
      "\<lparr>imageUri = Some (lit ''a.jpg''), imageSource = Some Camera,
       extractedText = lit ''TOTAL 45.00'',
       location = Some \<lparr>latitude = 40.71, longitude = -74\<rparr>, loading = False,
       saveStatus = Some (lit ''Photo saved to gallery.''), copyStatus = Some (lit ''Copied!''),
       history = []\<rparr>"]
  by (simp add: initial_def)

text \<open>
  C7. The claim asks that the finalized record, history entry included, be built from
  the outcome and coordinate just computed by the same run. \<^verbatim>\<open>part_001\<close> builds the
  history entry from the variables \<open>extractedText\<close> and \<open>location\<close> of the closure,
  which hold the state rendered when the button was pressed. For the first scan of
  scenario A the state ends with the invoice text and the fix, and the history entry of
  that same scan with an empty text and no coordinate. A second scan, of b, whose
  position query fails and whose text is RECEIPT, is entered with the invoice text and
  the fix of the first.
\<close>

theorem C7_history_entry_is_stale:
  "app (run Part_001 iphone (start initial)
     [(5, Press TakePhoto), (6, Settle 0 (PickerAnswer (picked ''a.jpg''))),
      (7, Settle 0 (PositionAnswer (PositionSuccess \<lparr>latitude = 40.71, longitude = -74\<rparr>))),
      (8, Settle 0 (RecognizeAnswer (reads ''INVOICE #102'')))])
   = \<lparr>imageUri = Some (lit ''a.jpg''), imageSource = Some Camera,
      extractedText = lit ''INVOICE #102'',
      location = Some \<lparr>latitude = 40.71, longitude = -74\<rparr>, loading = False,
      saveStatus = None, copyStatus = None,
      history = [\<lparr>entry_imageUri = Some (lit ''a.jpg''), entry_extractedText = [],
                 entry_location = None, entry_timestamp = 8\<rparr>]\<rparr>
   \<and> history (app (run Part_001 iphone (start initial)
     [(5, Press TakePhoto), (6, Settle 0 (PickerAnswer (picked ''a.jpg''))),
      (7, Settle 0 (PositionAnswer (PositionSuccess \<lparr>latitude = 40.71, longitude = -74\<rparr>))),
      (8, Settle 0 (RecognizeAnswer (reads ''INVOICE #102''))),
      (20, Press SelectFromGallery), (21, Settle 1 (PickerAnswer (picked ''b.jpg''))),
      (22, Settle 1 (PositionAnswer (PositionError 3))),
      (23, Settle 1 (RecognizeAnswer (reads ''RECEIPT'')))]))
   = [\<lparr>entry_imageUri = Some (lit ''b.jpg''), entry_extractedText = lit ''INVOICE #102'',
       entry_location = Some \<lparr>latitude = 40.71, longitude = -74\<rparr>, entry_timestamp = 23\<rparr>,
      \<lparr>entry_imageUri = Some (lit ''a.jpg''), entry_extractedText = [],
       entry_location = None, entry_timestamp = 8\<rparr>]"
  by (simp add: loop segments inputs strings)

text \<open>The entry's text differs from the text the scan produced.\<close>

theorem C7_history_entry_is_stale_witness:
  "map entry_extractedText (history (app (run Part_001 iphone (start initial)
     [(5, Press TakePhoto), (6, Settle 0 (PickerAnswer (picked ''a.jpg''))),
      (7, Settle 0 (PositionAnswer (PositionSuccess \<lparr>latitude = 40.71, longitude = -74\<rparr>))),
      (8, Settle 0 (RecognizeAnswer (reads ''INVOICE #102'')))]))) = [[]]
   \<and> extractedText (app (run Part_001 iphone (start initial)
     [(5, Press TakePhoto), (6, Settle 0 (PickerAnswer (picked ''a.jpg''))),
      (7, Settle 0 (PositionAnswer (PositionSuccess \<lparr>latitude = 40.71, longitude = -74\<rparr>))),
      (8, Settle 0 (RecognizeAnswer (reads ''INVOICE #102'')))])) \<noteq> []"
  using C7_history_entry_is_stale by (simp add: lit_def)

text \<open>
  C8, as stated: positioning and recognition are launched independently and run
  concurrently. In the code recognition is step 2, after the positioning step has
  settled: once the photo is chosen the position query is in flight and the recognizer
  has not been called.
\<close>

theorem C8_recognition_waits_counterexample:
  "calls (run App_js iphone (start initial)
     [(5, Press TakePhoto), (6, Settle 0 (PickerAnswer (picked ''a.jpg'')))])
     = [LaunchCamera, GetCurrentPosition True 10000 10000]
   \<and> tasks (run App_js iphone (start initial)
     [(5, Press TakePhoto), (6, Settle 0 (PickerAnswer (picked ''a.jpg'')))])
     = [Some (Process_position (Some (lit ''a.jpg'')) initial)]"
  by (simp add: loop segments inputs strings)

text \<open>
  C8, amended: the two attempts run one after the other. The segments that start the
  pipeline and that launch the position query call no recognizer and leave \<open>loading\<close>
  set; the recognizer is called, once, by the segment in which positioning settles
  (permission denied, fix, error or throw), whatever that result is; \<open>loading\<close> is
  cleared only when recognition has settled, so the record is ready only when both
  outcomes are known.
\<close>

theorem C8_positioning_then_recognition:
  "(\<forall>e \<in> set (fst (snd (processImageAndLocation dev uri rendered s))). \<not> isRecognize e)
   \<and> loading (fst (processImageAndLocation dev uri rendered s))
   \<and> (g = GRANTED \<longrightarrow>
        (\<forall>e \<in> set (fst (snd (processImageAndLocation_permission uri rendered g s))).
           \<not> isRecognize e))
   \<and> (g \<noteq> GRANTED \<longrightarrow>
        fst (snd (processImageAndLocation_permission uri rendered g s)) = [Recognize uri])
   \<and> fst (snd (processImageAndLocation_position uri rendered p s)) = [Recognize uri]
   \<and> loading (fst (processImageAndLocation_permission uri rendered g s)) = loading s
   \<and> loading (fst (processImageAndLocation_position uri rendered p s)) = loading s
   \<and> \<not> loading (fst (processImageAndLocation_recognize f uri loc rendered now r s))
   \<and> fst (snd (pipeline f dev now uri rendered g p r s)) = asked dev g @ [Recognize uri]"
proof -
  have a: "\<forall>e \<in> set (fst (snd (processImageAndLocation dev uri rendered s))). \<not> isRecognize e"
    by (simp add: processImageAndLocation_def isRecognize_def Let_def)
  have b: "loading (fst (processImageAndLocation dev uri rendered s))"
    by (simp add: processImageAndLocation_def Let_def)
  have c: "g = GRANTED \<longrightarrow>
        (\<forall>e \<in> set (fst (snd (processImageAndLocation_permission uri rendered g s))).
           \<not> isRecognize e)"
    by (simp add: processImageAndLocation_permission_def isRecognize_def granted_iff)
  have d: "g \<noteq> GRANTED \<longrightarrow>
        fst (snd (processImageAndLocation_permission uri rendered g s)) = [Recognize uri]"
    by (simp add: processImageAndLocation_permission_def granted_iff)
  have e: "fst (snd (processImageAndLocation_position uri rendered p s)) = [Recognize uri]"
    by (cases p) (simp_all add: processImageAndLocation_position_def Let_def)
  have f1: "loading (fst (processImageAndLocation_permission uri rendered g s)) = loading s"
    by (simp add: processImageAndLocation_permission_def)
  have f2: "loading (fst (processImageAndLocation_position uri rendered p s)) = loading s"
    by (cases p) (simp_all add: processImageAndLocation_position_def Let_def)
  have h: "\<not> loading (fst (processImageAndLocation_recognize f uri loc rendered now r s))"
    using recognize_writes_outcome [of f uri loc rendered now r s] by (metis prod.collapse)
  from a b c d e f1 f2 h pipeline_calls [of f dev now uri rendered g p r s]
  show ?thesis by blast
qed

text \<open>The order of calls on Android, with the permission granted and denied.\<close>

theorem C8_positioning_then_recognition_witness:
  "fst (snd (processImageAndLocation pixel (Some (lit ''a.jpg'')) initial initial))
     = [RequestPermission ACCESS_FINE_LOCATION]
   \<and> fst (snd (processImageAndLocation_permission (Some (lit ''a.jpg'')) initial GRANTED initial))
     = [GetCurrentPosition True 10000 10000]
   \<and> fst (snd (processImageAndLocation_permission (Some (lit ''a.jpg'')) initial DENIED initial))
     = [Recognize (Some (lit ''a.jpg''))]
   \<and> fst (snd (processImageAndLocation_position (Some (lit ''a.jpg'')) initial (PositionError 3)
        initial)) = [Recognize (Some (lit ''a.jpg''))]
   \<and> fst (snd (pipeline App_js pixel 8 (Some (lit ''a.jpg'')) initial GRANTED (PositionError 3)
        (reads ''TOTAL'') initial))
     = [RequestPermission ACCESS_FINE_LOCATION, GetCurrentPosition True 10000 10000,
        Recognize (Some (lit ''a.jpg''))]"
  using C8_positioning_then_recognition [of pixel "Some (lit ''a.jpg'')" initial initial DENIED
      "PositionError 3" App_js None 8 "reads ''TOTAL''"]
    C8_positioning_then_recognition [of pixel "Some (lit ''a.jpg'')" initial initial GRANTED
      "PositionError 3" App_js None 8 "reads ''TOTAL''"]
  by (simp add: processImageAndLocation_def processImageAndLocation_permission_def
      requestAndroidPermission_def asked_def pixel_def)

text \<open>
  C9, as stated: two exportText calls on an unchanged record write two files with
  distinct names. The name embeds \<^verbatim>\<open>Date.now()\<close> in milliseconds and nothing else: two
  calls that read the same clock value write the same path.
\<close>

theorem C9_same_reading_same_name_counterexample:
  "calls (run App_js iphone (start ready)
     [(1700000000000, Press SaveTextToFile), (1700000000000, Press SaveTextToFile)])
   = [WriteFile (lit ''/Documents/ocr_result_1700000000000.txt'') (lit ''TOTAL 45.00'')
        (lit ''utf8''),
      WriteFile (lit ''/Documents/ocr_result_1700000000000.txt'') (lit ''TOTAL 45.00'')
        (lit ''utf8'')]
   \<and> extractedText (app (run App_js iphone (start ready)
     [(1700000000000, Press SaveTextToFile)])) = extractedText ready"
  by (simp add: loop segments inputs strings ready_def filePath_def decimal.simps)

text \<open>
  C9, amended: an exportText call writes at most one file, with encoding utf8, the
  record's text as contents and the path \<^verbatim>\<open><dir>/ocr_result_<Date.now()>.txt\<close>. It
  writes exactly one when the text guard lets it pass and either no storage permission
  is asked for, or it is granted, or the file is \<^verbatim>\<open>part_001\<close> (which falls back to the
  documents directory); a guarded call writes none. Two calls into the same directory
  write distinct names exactly when their clock readings differ.
\<close>

theorem C9_export_file_name:
  "(\<forall>e \<in> set (fst (snd (handleSaveTextToFile f dev now s))). isWrite e \<longrightarrow>
       e = WriteFile (filePath (DocumentDirectoryPath dev) now) (extractedText s) (lit ''utf8''))
   \<and> (\<forall>e \<in> set (fst (snd (handleSaveTextToFile_permission f dev now rendered g s))).
        isWrite e \<longrightarrow>
          (\<exists>dir. e = WriteFile (filePath dir now) (extractedText rendered) (lit ''utf8'')))
   \<and> length (filter isWrite (fst (snd (handleSaveTextToFile f dev now s)))) \<le> 1
   \<and> length (filter isWrite
        (fst (snd (handleSaveTextToFile_permission f dev now rendered g s)))) \<le> 1
   \<and> (\<not> noValidText (extractedText s) \<and> \<not> asksStorage f dev \<longrightarrow>
        fst (snd (handleSaveTextToFile f dev now s))
          = [WriteFile (filePath (DocumentDirectoryPath dev) now) (extractedText s)
               (lit ''utf8'')])
   \<and> (\<not> noValidText (extractedText s) \<and> asksStorage f dev \<longrightarrow>
        fst (snd (handleSaveTextToFile f dev now s))
          = [RequestPermission WRITE_EXTERNAL_STORAGE])
   \<and> (f = Part_001 \<or> g = GRANTED \<longrightarrow>
        length (filter isWrite
          (fst (snd (handleSaveTextToFile_permission f dev now rendered g s)))) = 1)
   \<and> (filePath dir n = filePath dir m \<longleftrightarrow> n = m)"
proof -
  have a: "\<forall>e \<in> set (fst (snd (handleSaveTextToFile f dev now s))). isWrite e \<longrightarrow>
       e = WriteFile (filePath (DocumentDirectoryPath dev) now) (extractedText s) (lit ''utf8'')"
    by (cases f) (auto simp: handleSaveTextToFile_def isWrite_def Let_def)
  have b: "\<forall>e \<in> set (fst (snd (handleSaveTextToFile_permission f dev now rendered g s))).
        isWrite e \<longrightarrow>
          (\<exists>dir. e = WriteFile (filePath dir now) (extractedText rendered) (lit ''utf8''))"
    by (cases f) (auto simp: handleSaveTextToFile_permission_def isWrite_def Let_def)
  have c: "length (filter isWrite (fst (snd (handleSaveTextToFile f dev now s)))) \<le> 1"
    by (cases f) (auto simp: handleSaveTextToFile_def isWrite_def Let_def)
  have d: "length (filter isWrite
        (fst (snd (handleSaveTextToFile_permission f dev now rendered g s)))) \<le> 1"
    by (cases f) (auto simp: handleSaveTextToFile_permission_def isWrite_def Let_def)
  have e1: "\<not> noValidText (extractedText s) \<and> \<not> asksStorage f dev \<longrightarrow>
        fst (snd (handleSaveTextToFile f dev now s))
          = [WriteFile (filePath (DocumentDirectoryPath dev) now) (extractedText s)
               (lit ''utf8'')]"
    by (cases f) (auto simp: handleSaveTextToFile_def asksStorage_def Let_def)
  have e2: "\<not> noValidText (extractedText s) \<and> asksStorage f dev \<longrightarrow>
        fst (snd (handleSaveTextToFile f dev now s))
          = [RequestPermission WRITE_EXTERNAL_STORAGE]"
    by (cases f) (auto simp: handleSaveTextToFile_def asksStorage_def Let_def)
  have e3: "f = Part_001 \<or> g = GRANTED \<longrightarrow>
        length (filter isWrite
          (fst (snd (handleSaveTextToFile_permission f dev now rendered g s)))) = 1"
    by (cases f)
       (auto simp: handleSaveTextToFile_permission_def isWrite_def granted_iff Let_def)
  note inj = filePath_inj [of dir n m]
  from a b c d e1 e2 e3 inj show ?thesis by (intro conjI) assumption+
qed

text \<open>
  An export on Android below API level 30 asks first and, when denied, still writes one
  file; one on an iPhone writes at once; two distinct readings give distinct paths.
\<close>

theorem C9_export_file_name_witness:
  "fst (snd (handleSaveTextToFile Part_001 pixel 1700000000000 ready))
     = [RequestPermission WRITE_EXTERNAL_STORAGE]
   \<and> fst (snd (handleSaveTextToFile Part_001 iphone 1700000000002 ready))
     = [WriteFile (lit ''/Documents/ocr_result_1700000000002.txt'') (lit ''TOTAL 45.00'')
          (lit ''utf8'')]
   \<and> length (filter isWrite (fst (snd
        (handleSaveTextToFile_permission Part_001 pixel 1700000000001 ready DENIED ready)))) = 1
   \<and> filePath (lit ''/Documents'') 1700000000001 \<noteq> filePath (lit ''/Documents'') 1700000000002"
proof -
  have valid: "\<not> noValidText (extractedText ready)"
    by (simp add: ready_def initial_def noValidText_def lit_def)
  have asks: "asksStorage Part_001 pixel"
    by (simp add: asksStorage_def pixel_def truthy_def lit_def)
  have direct: "\<not> asksStorage Part_001 iphone"
    by (simp add: asksStorage_def iphone_def)
  note android = C9_export_file_name [of Part_001 pixel 1700000000000 ready ready DENIED
      "lit ''/Documents''" 1700000000001 1700000000002]
  note ios = C9_export_file_name [of Part_001 iphone 1700000000002 ready ready DENIED
      "lit ''/Documents''" 1700000000001 1700000000002]
  note android_later = C9_export_file_name [of Part_001 pixel 1700000000001 ready ready DENIED
      "lit ''/Documents''" 1700000000001 1700000000002]
  from android [THEN conjunct2, THEN conjunct2, THEN conjunct2, THEN conjunct2, THEN conjunct2,
      THEN conjunct1] valid asks
  have w1: "fst (snd (handleSaveTextToFile Part_001 pixel 1700000000000 ready))
     = [RequestPermission WRITE_EXTERNAL_STORAGE]"
    by simp
  from ios [THEN conjunct2, THEN conjunct2, THEN conjunct2, THEN conjunct2, THEN conjunct1]
    valid direct
  have "fst (snd (handleSaveTextToFile Part_001 iphone 1700000000002 ready))
     = [WriteFile (filePath (DocumentDirectoryPath iphone) 1700000000002) (extractedText ready)
          (lit ''utf8'')]"
    by simp
  then have w2: "fst (snd (handleSaveTextToFile Part_001 iphone 1700000000002 ready))
     = [WriteFile (lit ''/Documents/ocr_result_1700000000002.txt'') (lit ''TOTAL 45.00'')
          (lit ''utf8'')]"
    by (simp add: iphone_def ready_def initial_def filePath_def decimal.simps lit_def)
  from android_later [THEN conjunct2, THEN conjunct2, THEN conjunct2, THEN conjunct2,
      THEN conjunct2, THEN conjunct2, THEN conjunct1]
  have w3: "length (filter isWrite (fst (snd
        (handleSaveTextToFile_permission Part_001 pixel 1700000000001 ready DENIED ready)))) = 1"
    by simp
  from ios [THEN conjunct2, THEN conjunct2, THEN conjunct2, THEN conjunct2, THEN conjunct2,
      THEN conjunct2, THEN conjunct2]
  have w4: "filePath (lit ''/Documents'') 1700000000001
      \<noteq> filePath (lit ''/Documents'') 1700000000002"
    by simp
  from w1 w2 w3 w4 show ?thesis by (intro conjI)
qed

text \<open>
  C10. The promise around the position query is resolved by both callbacks and never
  rejected: whatever the positioning service reports, the segment that handles it
  calls the recognizer and leaves the recognition continuation pending, so every
  pending position query that settles is followed by the recognition phase.
\<close>

theorem C10_positioning_always_resolves:
  "(\<exists>s1 loc. processImageAndLocation_position uri rendered p s
       = (s1, [Recognize uri], Some (Process_recognize uri loc rendered)))
   \<and> (i < length (tasks sys) \<and> tasks sys ! i = Some (Process_position uri rendered) \<longrightarrow>
        calls (dispatch f dev sys (now, Settle i (PositionAnswer p)))
          = calls sys @ [Recognize uri]
        \<and> (\<exists>loc. tasks (dispatch f dev sys (now, Settle i (PositionAnswer p))) ! i
              = Some (Process_recognize uri loc rendered)))"
  by (cases p) (auto simp: processImageAndLocation_position_def dispatch_def resume_def Let_def)

text \<open>A timeout reported through the error callback.\<close>

theorem C10_positioning_always_resolves_witness:
  "calls (dispatch App_js iphone
     \<lparr>app = initial, tasks = [Some (Process_position None initial)], calls = []\<rparr>
     (7, Settle 0 (PositionAnswer (PositionError 3)))) = [Recognize None]
   \<and> tasks (dispatch App_js iphone
     \<lparr>app = initial, tasks = [Some (Process_position None initial)], calls = []\<rparr>
     (7, Settle 0 (PositionAnswer (PositionError 3)))) ! 0
     = Some (Process_recognize None None initial)"
  using C10_positioning_always_resolves [of None initial "PositionError 3" initial 0
     "\<lparr>app = initial, tasks = [Some (Process_position None initial)], calls = []\<rparr>"
     App_js iphone 7]
  by (simp add: dispatch_def resume_def processImageAndLocation_position_def)

end
